theory Spec2Isabelle
  imports Main
begin

section \<open>Data model of package sparql\<close>

text \<open>
  A Go \<open>error\<close> value is identified by its message. Strings are byte strings, as in Go.
\<close>

datatype error = Error string

text \<open>The struct \<open>Binding\<close> of repo.go: one cell of a SPARQL JSON result.\<close>

record Binding =
  Type :: string
  Value :: string
  Lang :: string
  DataType :: string

record header =
  Link :: "string list"
  Vars :: "string list"

text \<open>
  A solution row is a Go \<open>map[string]Binding\<close>: a partial function from variable names
  to bindings.
\<close>

type_synonym row = "string \<rightharpoonup> Binding"

record results =
  Distinct :: bool
  Ordered :: bool
  Bindings :: "row list"

record Results =
  Head :: header
  Results :: results

text \<open>
  Indexing a Go map with a key it does not hold yields the zero value of the element
  type: the empty \<open>Binding\<close> for a row, the nil slice for a map of slices.
\<close>

definition zero_Binding :: Binding where
  "zero_Binding = \<lparr>Type = [], Value = [], Lang = [], DataType = []\<rparr>"

definition index_row :: "row \<Rightarrow> string \<Rightarrow> Binding" where
  "index_row b v = (case b v of Some x \<Rightarrow> x | None \<Rightarrow> zero_Binding)"

definition index_slices :: "(string \<rightharpoonup> 'a list) \<Rightarrow> string \<Rightarrow> 'a list" where
  "index_slices m k = (case m k of Some xs \<Rightarrow> xs | None \<Rightarrow> [])"

section \<open>The terms of package rdf\<close>

text \<open>
  Modelled from the spec: the package github.com/knakk/rdf, whose types \<open>rdf.IRI\<close> and
  \<open>rdf.Term\<close> and whose constructors \<open>NewIRI\<close>, \<open>NewBlank\<close>, \<open>NewLangLiteral\<close> and
  \<open>NewTypedLiteral\<close> repo.go calls, is not among the sources. The data model of the
  specification gives a term as one of: an IRI, a blank node (by label), a literal
  (string value and language tag), a typed literal (string value and datatype IRI).
\<close>

datatype IRI = IRI string

datatype Term =
    TermIRI IRI
  | Blank string
  | LangLiteral string string
  | TypedLiteral string IRI

text \<open>
  Modelled from the spec: which strings the three fallible constructors reject, and with
  which error, is decided inside package rdf. It is a parameter of the model: for each
  constructor, the error it reports on its arguments, if any. A constructor that reports
  no error yields the term made of its arguments (a blank node with label equal to the
  lexical value, an IRI whose string form is the value, a literal with the value and
  the tag).
\<close>

record rdf =
  iri_error :: "string \<Rightarrow> error option"
  blank_error :: "string \<Rightarrow> error option"
  lang_error :: "string \<Rightarrow> string \<Rightarrow> error option"

definition NewIRI :: "rdf \<Rightarrow> string \<Rightarrow> error + IRI" where
  "NewIRI L iri = (case iri_error L iri of Some e \<Rightarrow> Inl e | None \<Rightarrow> Inr (IRI iri))"

definition NewBlank :: "rdf \<Rightarrow> string \<Rightarrow> error + Term" where
  "NewBlank L label = (case blank_error L label of Some e \<Rightarrow> Inl e | None \<Rightarrow> Inr (Blank label))"

definition NewLangLiteral :: "rdf \<Rightarrow> string \<Rightarrow> string \<Rightarrow> error + Term" where
  "NewLangLiteral L v lang =
     (case lang_error L v lang of Some e \<Rightarrow> Inl e | None \<Rightarrow> Inr (LangLiteral v lang))"

text \<open>\<open>NewTypedLiteral\<close> returns a single value in repo.go: it cannot fail.\<close>

definition NewTypedLiteral :: "string \<Rightarrow> IRI \<Rightarrow> Term" where
  "NewTypedLiteral v dt = TypedLiteral v dt"

text \<open>
  A sample instance of the library's checks, used to run the definitions on concrete
  inputs, written after the checks the library documents. An IRI must not be empty and
  must hold no character up to the space and none of \<open><>"{}|^`\<close> and the backslash.
  A blank node label must hold a character that is not white space. A language tag is
  made of letters, with at most one dash, which is neither first nor last and after
  which digits may stand as well.
\<close>

definition iri_disallowed :: "char \<Rightarrow> bool" where
  "iri_disallowed c =
     ((of_char c :: nat) \<le> 32
      \<or> c \<in> set [CHR ''<'', CHR ''>'', CHR 0x22, CHR ''{'', CHR ''}'', CHR ''|'', CHR ''^'',
                  CHR 0x60, CHR 0x5C])"

definition letter :: "char \<Rightarrow> bool" where
  "letter c = (c \<in> set ''abcdefghijklmnopqrstuvwxyzABCDEFGHIJKLMNOPQRSTUVWXYZ'')"

definition digit :: "char \<Rightarrow> bool" where
  "digit c = (c \<in> set ''0123456789'')"

definition blank_space :: "char \<Rightarrow> bool" where
  "blank_space c = (c \<in> set [CHR 0x09, CHR 0x0A, CHR 0x0B, CHR 0x0C, CHR 0x0D, CHR '' ''])"

fun lang_scan :: "string \<Rightarrow> bool \<Rightarrow> error option" where
  "lang_scan [] afterDash = None"
| "lang_scan (r # rs) afterDash =
     (if letter r then lang_scan rs afterDash
      else if r = CHR ''-'' then
        (if afterDash then Some (Error ''invalid language tag: only one '-' allowed'')
         else lang_scan rs True)
      else if digit r \<and> afterDash then lang_scan rs afterDash
      else Some (Error (''invalid language tag: unexpected character: '' @ [CHR 0x27, r, CHR 0x27])))"

definition lang_check :: "string \<Rightarrow> error option" where
  "lang_check lang =
     (if length lang \<ge> 1 \<and> hd lang = CHR ''-''
      then Some (Error ''invalid language tag: must start with a letter'')
      else (case lang_scan lang False of
              Some e \<Rightarrow> Some e
            | None \<Rightarrow>
                if lang \<noteq> [] \<and> last lang = CHR ''-''
                then Some (Error ''invalid language tag: trailing '-' disallowed'')
                else None))"

definition sample_rdf :: rdf where
  "sample_rdf =
     \<lparr>iri_error = (\<lambda>s. if s = [] then Some (Error ''empty IRI'')
                        else (case filter iri_disallowed s of
                                [] \<Rightarrow> None
                              | c # _ \<Rightarrow> Some (Error (''disallowed character: ''
                                                        @ [CHR 0x27, c, CHR 0x27])))),
      blank_error = (\<lambda>s. if filter (\<lambda>c. \<not> blank_space c) s = [] then Some (Error ''blank id'')
                          else None),
      lang_error = (\<lambda>v l. lang_check l)\<rparr>"

section \<open>sparql.go\<close>

text \<open>
  The package variable \<open>xsdString\<close> is set once, in \<open>init\<close>, from
  \<open>rdf.NewIRI("http://www.w3.org/2001/XMLSchema#string")\<close> with the error discarded: had the
  constructor failed, the variable would hold the zero IRI.
\<close>

definition xsdString :: "rdf \<Rightarrow> IRI" where
  "xsdString L =
     (case NewIRI L ''http://www.w3.org/2001/XMLSchema#string'' of
        Inr iri \<Rightarrow> iri
      | Inl _ \<Rightarrow> IRI [])"

definition GetValue :: "string \<Rightarrow> row list \<Rightarrow> string" where
  "GetValue needle haystack =
     (if length haystack = 0 then []
      else (let term = hd haystack in
            case term needle of
              Some val \<Rightarrow> Value val
            | None \<Rightarrow> []))"

text \<open>
  The loops of \<open>ListOfSubjects\<close> and \<open>ListOf\<close>, with the map \<open>toReturn\<close> passed along.
\<close>

fun ListOfSubjects_loop :: "row list \<Rightarrow> (string \<rightharpoonup> row list) \<Rightarrow> (string \<rightharpoonup> row list)" where
  "ListOfSubjects_loop [] toReturn = toReturn"
| "ListOfSubjects_loop (term # results) toReturn =
     (case term ''s'' of
        Some _ \<Rightarrow>
          (let val = Value (index_row term ''s'');
               toReturn1 = (if length (index_slices toReturn val) < 1
                            then toReturn(val \<mapsto> []) else toReturn);
               toReturn2 = toReturn1(val \<mapsto> index_slices toReturn1 val @ [term])
           in ListOfSubjects_loop results toReturn2)
      | None \<Rightarrow> ListOfSubjects_loop results toReturn)"

definition ListOfSubjects :: "row list \<Rightarrow> (string \<rightharpoonup> row list)" where
  "ListOfSubjects results = ListOfSubjects_loop results Map.empty"

fun ListOf_loop :: "row list \<Rightarrow> string \<Rightarrow> (string \<rightharpoonup> row list) \<Rightarrow> (string \<rightharpoonup> row list)" where
  "ListOf_loop [] needle toReturn = toReturn"
| "ListOf_loop (term # results) needle toReturn =
     (case term needle of
        Some _ \<Rightarrow>
          (let val = Value (index_row term needle);
               toReturn1 = (if length (index_slices toReturn val) < 1
                            then toReturn(val \<mapsto> []) else toReturn);
               toReturn2 = toReturn1(val \<mapsto> index_slices toReturn1 val @ [term])
           in ListOf_loop results needle toReturn2)
      | None \<Rightarrow> ListOf_loop results needle toReturn)"

definition ListOf :: "row list \<Rightarrow> string \<Rightarrow> (string \<rightharpoonup> row list)" where
  "ListOf results needle = ListOf_loop results needle Map.empty"

section \<open>repo.go: materializing terms\<close>

definition termFromJSON :: "rdf \<Rightarrow> Binding \<Rightarrow> error + Term" where
  "termFromJSON L b =
     (if Type b = ''bnode'' then NewBlank L (Value b)
      else if Type b = ''uri'' then
        (case NewIRI L (Value b) of Inl e \<Rightarrow> Inl e | Inr iri \<Rightarrow> Inr (TermIRI iri))
      else if Type b = ''literal'' then
        (if Lang b \<noteq> [] then NewLangLiteral L (Value b) (Lang b)
         else Inr (NewTypedLiteral (Value b) (xsdString L)))
      else if Type b = ''typed-literal'' then
        (case NewIRI L (DataType b) of
           Inl err \<Rightarrow> Inl err
         | Inr iri \<Rightarrow> Inr (NewTypedLiteral (Value b) iri))
      else Inl (Error ''unknown term type''))"

text \<open>
  \<open>Bindings\<close>: for each declared variable, for each row, the term of the row's binding
  for that variable is appended to the variable's slice when it materializes. The inner
  loop and the outer loop pass the map \<open>rb\<close> along.
\<close>

fun Bindings_rows :: "rdf \<Rightarrow> string \<Rightarrow> row list \<Rightarrow> (string \<rightharpoonup> Term list) \<Rightarrow> (string \<rightharpoonup> Term list)" where
  "Bindings_rows L v [] rb = rb"
| "Bindings_rows L v (b # bs) rb =
     (case termFromJSON L (index_row b v) of
        Inr t \<Rightarrow> Bindings_rows L v bs (rb(v \<mapsto> index_slices rb v @ [t]))
      | Inl err \<Rightarrow> Bindings_rows L v bs rb)"

fun Bindings_vars :: "rdf \<Rightarrow> string list \<Rightarrow> row list \<Rightarrow> (string \<rightharpoonup> Term list) \<Rightarrow> (string \<rightharpoonup> Term list)" where
  "Bindings_vars L [] rows rb = rb"
| "Bindings_vars L (v # vs) rows rb = Bindings_vars L vs rows (Bindings_rows L v rows rb)"

definition Results_Bindings :: "rdf \<Rightarrow> Results \<Rightarrow> (string \<rightharpoonup> Term list)" where
  "Results_Bindings L r = Bindings_vars L (Vars (Head r)) (Bindings (Results r)) Map.empty"

text \<open>
  \<open>Solutions\<close> ranges over each row, a Go map, whose iteration order Go leaves
  unspecified and may change from one call to the next. The order is a parameter:
  \<open>order s\<close> lists the keys of the row \<open>s\<close> in the order in which the loop visits them.
\<close>

fun Solutions_row :: "rdf \<Rightarrow> row \<Rightarrow> string list \<Rightarrow> (string \<rightharpoonup> Term) \<Rightarrow> (string \<rightharpoonup> Term)" where
  "Solutions_row L s [] solution = solution"
| "Solutions_row L s (k # ks) solution =
     (case s k of
        None \<Rightarrow> Solutions_row L s ks solution
      | Some v \<Rightarrow>
          (case termFromJSON L v of
             Inr term \<Rightarrow> Solutions_row L s ks (solution(k \<mapsto> term))
           | Inl err \<Rightarrow> Solutions_row L s ks solution))"

fun Solutions_loop :: "rdf \<Rightarrow> (row \<Rightarrow> string list) \<Rightarrow> row list \<Rightarrow> (string \<rightharpoonup> Term) list \<Rightarrow> (string \<rightharpoonup> Term) list" where
  "Solutions_loop L order [] rs = rs"
| "Solutions_loop L order (s # rows) rs =
     Solutions_loop L order rows (rs @ [Solutions_row L s (order s) Map.empty])"

definition Results_Solutions :: "rdf \<Rightarrow> (row \<Rightarrow> string list) \<Rightarrow> Results \<Rightarrow> (string \<rightharpoonup> Term) list" where
  "Results_Solutions L order r = Solutions_loop L order (Bindings (Results r)) []"

text \<open>An iteration order is one of a row when it lists exactly the row's keys.\<close>

definition visits :: "(row \<Rightarrow> string list) \<Rightarrow> row \<Rightarrow> bool" where
  "visits order s = (set (order s) = dom s)"

text \<open>
  Both methods have a pointer receiver. As state transformers on the receiver they
  return it as it was: neither body assigns to a field of \<open>r\<close>.
\<close>

definition call_Bindings :: "rdf \<Rightarrow> Results \<Rightarrow> (string \<rightharpoonup> Term list) \<times> Results" where
  "call_Bindings L r = (Results_Bindings L r, r)"

definition call_Solutions :: "rdf \<Rightarrow> (row \<Rightarrow> string list) \<Rightarrow> Results \<Rightarrow> (string \<rightharpoonup> Term) list \<times> Results" where
  "call_Solutions L order r = (Results_Solutions L order r, r)"

text \<open>
  What a row and a column materialize to, stated apart from the loops: the term of each
  binding that materializes, and nothing for the others.
\<close>

definition term_of :: "rdf \<Rightarrow> Binding \<Rightarrow> Term option" where
  "term_of L b = (case termFromJSON L b of Inr t \<Rightarrow> Some t | Inl _ \<Rightarrow> None)"

definition solution_of :: "rdf \<Rightarrow> row \<Rightarrow> (string \<rightharpoonup> Term)" where
  "solution_of L s = (\<lambda>k. case s k of None \<Rightarrow> None | Some b \<Rightarrow> term_of L b)"

definition column_of :: "rdf \<Rightarrow> string \<Rightarrow> row list \<Rightarrow> Term list" where
  "column_of L v rows = List.map_filter (\<lambda>b. term_of L (index_row b v)) rows"

section \<open>repo.go: the repository client\<close>

text \<open>
  The client's transport and timeout, the two fields the options of this package set.
  \<open>Repo\<close> holds its client by pointer (\<open>http.DefaultClient\<close>); the record carries the
  client's fields, since nothing proved here depends on the sharing.
\<close>

datatype RoundTripper = NoTransport | DigestTransport string string

record Client =
  Transport :: RoundTripper
  Timeout :: int

record Repo =
  endpoint :: string
  client :: Client

text \<open>
  An option is a \<open>func(*Repo) error\<close>: it may change the repository it is given and
  may report an error.
\<close>

type_synonym option_fn = "Repo \<Rightarrow> Repo \<times> error option"

fun SetOption :: "Repo \<Rightarrow> option_fn list \<Rightarrow> Repo \<times> error option" where
  "SetOption r [] = (r, None)"
| "SetOption r (opt # options) =
     (case opt r of
        (r', Some err) \<Rightarrow> (r', Some err)
      | (r', None) \<Rightarrow> SetOption r' options)"

text \<open>
  \<open>NewRepo\<close> returns the repository together with the error of \<open>SetOption\<close>;
  \<open>DefaultClient\<close> is the state of \<open>http.DefaultClient\<close> at the call.
\<close>

definition NewRepo :: "Client \<Rightarrow> string \<Rightarrow> option_fn list \<Rightarrow> Repo \<times> error option" where
  "NewRepo DefaultClient addr options =
     SetOption \<lparr>endpoint = addr, client = DefaultClient\<rparr> options"

definition DigestAuth :: "string \<Rightarrow> string \<Rightarrow> option_fn" where
  "DigestAuth username password =
     (\<lambda>r. (r\<lparr>client := (client r)\<lparr>Transport := DigestTransport username password\<rparr>\<rparr>, None))"

definition Timeout_option :: "int \<Rightarrow> option_fn" where
  "Timeout_option t = (\<lambda>r. (r\<lparr>client := (client r)\<lparr>Timeout := t\<rparr>\<rparr>, None))"

text \<open>
  The words of the specification, to compare \<open>SetOption\<close> with: applying every option
  in the order given, and every option succeeding on the repository it receives.
\<close>

fun apply_in_order :: "option_fn list \<Rightarrow> Repo \<Rightarrow> Repo" where
  "apply_in_order [] r = r"
| "apply_in_order (opt # options) r = apply_in_order options (fst (opt r))"

fun all_succeed :: "option_fn list \<Rightarrow> Repo \<Rightarrow> bool" where
  "all_succeed [] r = True"
| "all_succeed (opt # options) r = (snd (opt r) = None \<and> all_succeed options (fst (opt r)))"

section \<open>repo.go: the three operations, from the HTTP response on\<close>

text \<open>
  The response of the endpoint: its status code, its status line, and what reading its
  body to the end gives, the bytes or a read error.
\<close>

datatype read_result = ReadAll_ok string | ReadAll_error error

record Response =
  StatusCode :: int
  Status :: string
  Body :: read_result

type_synonym Triple = "Term \<times> Term \<times> Term"

text \<open>
  What the operations take from outside the package is a parameter: \<open>strings.TrimSpace\<close>,
  the JSON decoder (\<open>Decode\<close> fills the value it is given and may report an error), the
  Turtle decoder, and the part of \<open>fmt\<close>'s format language that is not modelled below.
\<close>

record golib =
  TrimSpace :: "string \<Rightarrow> string"
  Decode :: "read_result \<Rightarrow> Results \<Rightarrow> Results \<times> error option"
  DecodeAll :: "read_result \<Rightarrow> Triple list \<times> error option"
  other_verbs :: "string \<Rightarrow> string list \<Rightarrow> string"

text \<open>
  The format language of \<open>fmt\<close>, for string operands: text outside verbs is copied, and
  the verb \<open>%s\<close> prints the next operand as it is. Every other use of \<open>%\<close>, and operands
  left over at the end, are handed to the parameter \<open>other\<close> with the rest of the format.
\<close>

fun Sprintf :: "(string \<Rightarrow> string list \<Rightarrow> string) \<Rightarrow> string \<Rightarrow> string list \<Rightarrow> string" where
  "Sprintf other [] a = (if a = [] then [] else other [] a)"
| "Sprintf other [c] a = (if c = CHR ''%'' then other [c] a else c # Sprintf other [] a)"
| "Sprintf other (c # d # f) a =
     (if c \<noteq> CHR ''%'' then c # Sprintf other (d # f) a
      else if d = CHR ''s'' \<and> a \<noteq> [] then hd a @ Sprintf other f (tl a)
      else other (c # d # f) a)"

definition Errorf :: "(string \<Rightarrow> string list \<Rightarrow> string) \<Rightarrow> string \<Rightarrow> string list \<Rightarrow> error" where
  "Errorf other format a = Error (Sprintf other format a)"

definition rb :: string where
  "rb = ''Response body: '' @ [CHR 0x0A]"

definition readFailMsg :: string where
  "readFailMsg = ''Failed to read response body''"

definition zero_Results :: Results where
  "zero_Results =
     \<lparr>Head = \<lparr>Link = [], Vars = []\<rparr>,
      Results = \<lparr>Distinct = False, Ordered = False, Bindings = []\<rparr>\<rparr>"

text \<open>\<open>ParseJSON\<close> returns the decoded value and the decoder's error, both.\<close>

definition ParseJSON :: "golib \<Rightarrow> read_result \<Rightarrow> Results \<times> error option" where
  "ParseJSON G r = Decode G r zero_Results"

definition Query_response :: "golib \<Rightarrow> Response \<Rightarrow> error + Results" where
  "Query_response G resp =
     (if StatusCode resp \<noteq> 200 then
        (let msg = (case Body resp of
                      ReadAll_error err \<Rightarrow> readFailMsg
                    | ReadAll_ok b \<Rightarrow> if TrimSpace G b \<noteq> [] then rb @ b else [])
         in Inl (Errorf (other_verbs G) (''Query: SPARQL request failed: %s. '' @ msg)
                   [Status resp]))
      else
        (case ParseJSON G (Body resp) of
           (results, Some err) \<Rightarrow> Inl err
         | (results, None) \<Rightarrow> Inr results))"

definition Update_response :: "golib \<Rightarrow> Response \<Rightarrow> error + string" where
  "Update_response G resp =
     (if StatusCode resp \<noteq> 200 then
        (let msg = (case Body resp of
                      ReadAll_error err \<Rightarrow> readFailMsg
                    | ReadAll_ok b \<Rightarrow> if TrimSpace G b \<noteq> [] then rb @ b else [])
         in Inl (Errorf (other_verbs G) (''Query: SPARQL request failed: %s. '' @ msg)
                   [Status resp]))
      else Inr ''OK'')"

definition Construct_response :: "golib \<Rightarrow> Response \<Rightarrow> Triple list \<times> error option" where
  "Construct_response G resp =
     (if StatusCode resp \<noteq> 200 then
        (let msg = (case Body resp of
                      ReadAll_error err \<Rightarrow> readFailMsg
                    | ReadAll_ok b \<Rightarrow> if TrimSpace G b \<noteq> [] then rb @ b else [])
         in ([], Some (Errorf (other_verbs G) (''Construct: SPARQL request failed: %s. '' @ msg)
                         [Status resp])))
      else DecodeAll G (Body resp))"

text \<open>
  A sample instance, used to run the definitions on concrete inputs: it trims ASCII
  white space, decodes nothing, and prints nothing for the verbs left open.
\<close>

definition ascii_space :: "char \<Rightarrow> bool" where
  "ascii_space c = (c \<in> set [CHR 0x09, CHR 0x0A, CHR 0x0B, CHR 0x0C, CHR 0x0D, CHR '' ''])"

definition sample_golib :: golib where
  "sample_golib =
     \<lparr>TrimSpace = (\<lambda>s. rev (dropWhile ascii_space (rev (dropWhile ascii_space s)))),
      Decode = (\<lambda>r res. (res, None)),
      DecodeAll = (\<lambda>r. ([], None)),
      other_verbs = (\<lambda>f a. [])\<rparr>"

text \<open>\<open>strings.Contains\<close>: the second string occurs in the first.\<close>

fun Contains :: "string \<Rightarrow> string \<Rightarrow> bool" where
  "Contains [] substr = (substr = [])"
| "Contains (c # s) substr = (take (length substr) (c # s) = substr \<or> Contains s substr)"

section \<open>Sample inputs\<close>

text \<open>
  A result with two declared variables and two rows; the first row binds \<open>y\<close> to a
  binding of unknown kind. Two iteration orders over the keys of its rows.
\<close>

definition sample_Results :: Results where
  "sample_Results =
     \<lparr>Head = \<lparr>Link = [], Vars = [''x'', ''y'']\<rparr>,
      Results = \<lparr>Distinct = False, Ordered = False,
        Bindings =
          [[''x'' \<mapsto> \<lparr>Type = ''uri'', Value = ''http://example.org/a'', Lang = [], DataType = []\<rparr>,
            ''y'' \<mapsto> \<lparr>Type = ''foo'', Value = ''junk'', Lang = [], DataType = []\<rparr>],
           [''x'' \<mapsto> \<lparr>Type = ''literal'', Value = ''hello'', Lang = [], DataType = []\<rparr>]]\<rparr>\<rparr>"

definition sample_order :: "row \<Rightarrow> string list" where
  "sample_order s = filter (\<lambda>k. s k \<noteq> None) [''y'', ''x'']"

definition sample_order2 :: "row \<Rightarrow> string list" where
  "sample_order2 s = filter (\<lambda>k. s k \<noteq> None) [''x'', ''y'', ''x'']"

text \<open>An option that changes nothing and reports an error.\<close>

definition failing_option :: option_fn where
  "failing_option = (\<lambda>r. (r, Some (Error ''refused'')))"

section \<open>Materializing a single binding\<close>

lemmas sample_rdf_defs =
  sample_rdf_def iri_disallowed_def blank_space_def lang_check_def letter_def digit_def

text \<open>
  C1, amended. A binding of kind "literal" with a non-empty language tag is handed,
  with its value and tag, to the constructor of language-tagged literals, and what the
  constructor returns is returned: the literal with that value and tag when it accepts
  the tag, its error when it rejects the tag. With an empty tag the result is, without
  failure, the typed literal with the binding's value and the datatype IRI
  http://www.w3.org/2001/XMLSchema#string, the IRI that \<open>init\<close> builds and that package
  rdf is taken to accept.
\<close>

theorem termFromJSON_literal:
  assumes "Type b = ''literal''"
    and "iri_error L ''http://www.w3.org/2001/XMLSchema#string'' = None"
  shows "(Lang b \<noteq> [] \<longrightarrow>
            termFromJSON L b =
              (case lang_error L (Value b) (Lang b) of
                 None \<Rightarrow> Inr (LangLiteral (Value b) (Lang b))
               | Some e \<Rightarrow> Inl e))
       \<and> (Lang b = [] \<longrightarrow>
            termFromJSON L b =
              Inr (TypedLiteral (Value b) (IRI ''http://www.w3.org/2001/XMLSchema#string'')))"
  using assms
  by (simp add: termFromJSON_def NewLangLiteral_def NewTypedLiteral_def xsdString_def NewIRI_def
           split: option.splits)

theorem termFromJSON_literal_witness:
  "termFromJSON sample_rdf \<lparr>Type = ''literal'', Value = ''hi'', Lang = ''en'', DataType = []\<rparr>
     = Inr (LangLiteral ''hi'' ''en'')
   \<and> termFromJSON sample_rdf \<lparr>Type = ''literal'', Value = ''hello'', Lang = [], DataType = []\<rparr>
     = Inr (TypedLiteral ''hello'' (IRI ''http://www.w3.org/2001/XMLSchema#string''))"
proof -
  have x: "iri_error sample_rdf ''http://www.w3.org/2001/XMLSchema#string'' = None"
    by (simp add: sample_rdf_defs)
  have l: "lang_error sample_rdf ''hi'' ''en'' = None"
    by (simp add: sample_rdf_defs)
  show ?thesis
    using termFromJSON_literal [OF _ x, of "\<lparr>Type = ''literal'', Value = ''hi'', Lang = ''en'', DataType = []\<rparr>"]
      termFromJSON_literal [OF _ x, of "\<lparr>Type = ''literal'', Value = ''hello'', Lang = [], DataType = []\<rparr>"]
      l
    by simp
qed

text \<open>
  C1 as stated fails: a binding of kind "literal" whose language tag is not empty and
  ends in a dash does not materialize to a language-tagged literal. The constructor
  rejects the tag and \<open>termFromJSON\<close> returns its error.
\<close>

theorem lang_tag_rejected:
  "termFromJSON sample_rdf \<lparr>Type = ''literal'', Value = ''hi'', Lang = ''en-'', DataType = []\<rparr>
     = Inl (Error ''invalid language tag: trailing '-' disallowed'')
   \<and> termFromJSON sample_rdf \<lparr>Type = ''literal'', Value = ''hi'', Lang = ''en-'', DataType = []\<rparr>
     \<noteq> Inr (LangLiteral ''hi'' ''en-'')"
  by (simp add: termFromJSON_def NewLangLiteral_def sample_rdf_defs)

section \<open>The loops of Solutions and Bindings\<close>

text \<open>
  Ranging over a row in any order that visits its keys builds the same solution: each
  key is written at most once, with a value that depends on the key alone.
\<close>

lemma Solutions_row_eq:
  "Solutions_row L s ks sol =
     (\<lambda>k. if k \<in> set ks \<and> solution_of L s k \<noteq> None then solution_of L s k else sol k)"
proof (induction ks arbitrary: sol)
  case Nil
  show ?case by simp
next
  case (Cons k ks)
  show ?case
    by (rule ext) (auto simp: Cons.IH solution_of_def term_of_def split: option.splits sum.splits)
qed

lemma Solutions_row_visits:
  assumes "visits order s"
  shows "Solutions_row L s (order s) Map.empty = solution_of L s"
proof (rule ext)
  fix k
  have "k \<notin> set (order s) \<Longrightarrow> solution_of L s k = None"
    using assms by (auto simp: visits_def solution_of_def split: option.splits)
  then show "Solutions_row L s (order s) Map.empty k = solution_of L s k"
    by (auto simp: Solutions_row_eq)
qed

lemma Solutions_loop_eq:
  "Solutions_loop L order rows rs =
     rs @ map (\<lambda>s. Solutions_row L s (order s) Map.empty) rows"
  by (induction rows arbitrary: rs) simp_all

lemma Results_Solutions_eq:
  assumes "\<forall>s \<in> set (Bindings (Results r)). visits order s"
  shows "Results_Solutions L order r = map (solution_of L) (Bindings (Results r))"
  using assms by (simp add: Results_Solutions_def Solutions_loop_eq Solutions_row_visits)

lemma dom_solution_of:
  "dom (solution_of L s) = {k. \<exists>b t. s k = Some b \<and> termFromJSON L b = Inr t}"
  by (auto simp: solution_of_def term_of_def split: option.splits sum.splits)

lemma column_of_Nil: "column_of L v [] = []"
  by (simp add: column_of_def List.map_filter_def)

lemma column_of_Cons:
  "column_of L v (b # bs) =
     (case termFromJSON L (index_row b v) of
        Inr t \<Rightarrow> t # column_of L v bs
      | Inl _ \<Rightarrow> column_of L v bs)"
  by (simp add: column_of_def List.map_filter_def term_of_def split: sum.splits)

lemma length_column_of: "length (column_of L v rows) \<le> length rows"
  by (induction rows) (simp_all add: column_of_Nil column_of_Cons split: sum.splits)

text \<open>
  The inner loop of \<open>Bindings\<close> appends the column of the variable to its slice, and
  leaves the map alone when no row materializes.
\<close>

lemma Bindings_rows_eq:
  "Bindings_rows L v bs m =
     (if column_of L v bs = [] then m else m(v \<mapsto> index_slices m v @ column_of L v bs))"
proof (induction bs arbitrary: m)
  case Nil
  show ?case by (simp add: column_of_Nil)
next
  case (Cons b bs)
  show ?case
    by (auto simp: Cons.IH column_of_Cons index_slices_def fun_eq_iff split: sum.splits)
qed

text \<open>
  The outer loop does so once for each occurrence of the variable in the head: a name
  declared twice gets its column twice.
\<close>

lemma Bindings_vars_eq:
  "Bindings_vars L vs rows m k =
     (if concat (replicate (count_list vs k) (column_of L k rows)) = [] then m k
      else Some (index_slices m k @ concat (replicate (count_list vs k) (column_of L k rows))))"
proof (induction vs arbitrary: m)
  case Nil
  show ?case by simp
next
  case (Cons v vs)
  show ?case
    by (simp add: Cons.IH Bindings_rows_eq index_slices_def)
qed

lemma Results_Bindings_eq:
  "Results_Bindings L r k =
     (let ts = concat (replicate (count_list (Vars (Head r)) k)
                         (column_of L k (Bindings (Results r))))
      in if ts = [] then None else Some ts)"
  by (simp add: Results_Bindings_def Bindings_vars_eq index_slices_def Let_def)

lemma dom_Results_Bindings: "dom (Results_Bindings L r) \<subseteq> set (Vars (Head r))"
proof
  fix k assume "k \<in> dom (Results_Bindings L r)"
  then have "count_list (Vars (Head r)) k \<noteq> 0"
    by (auto simp: Results_Bindings_eq Let_def split: if_splits)
  then show "k \<in> set (Vars (Head r))"
    by (simp add: count_list_0_iff)
qed

lemma distinct_count_list: "distinct xs \<Longrightarrow> x \<in> set xs \<Longrightarrow> count_list xs x = 1"
  by (induction xs) auto

lemma sample_visits:
  "\<forall>s \<in> set (Bindings (Results sample_Results)). visits sample_order s \<and> visits sample_order2 s"
  by (auto simp: sample_Results_def visits_def sample_order_def sample_order2_def split: if_splits)

section \<open>Strict for one binding, lenient in bulk\<close>

text \<open>
  C2. A binding whose kind is none of "uri", "literal", "typed-literal" and "bnode"
  fails to materialize with the error "unknown term type". \<open>Solutions\<close> and \<open>Bindings\<close>
  return no error at all: in the solution of a row, each bound variable has the term of
  its binding when it materializes and is absent when it does not, whatever the other
  bindings are; the slice of a variable holds, in row order, the terms of the rows
  whose binding materializes, once per occurrence of the variable in the head.
\<close>

theorem unknown_kind_dropped:
  assumes "\<forall>s \<in> set (Bindings (Results r)). visits order s"
  shows "(\<forall>b. Type b \<notin> {''uri'', ''literal'', ''typed-literal'', ''bnode''} \<longrightarrow>
            termFromJSON L b = Inl (Error ''unknown term type''))
       \<and> (\<forall>i k b. i < length (Bindings (Results r)) \<and> (Bindings (Results r) ! i) k = Some b \<longrightarrow>
            (Results_Solutions L order r ! i) k =
              (case termFromJSON L b of Inr t \<Rightarrow> Some t | Inl _ \<Rightarrow> None))
       \<and> (\<forall>v. index_slices (Results_Bindings L r) v =
            concat (replicate (count_list (Vars (Head r)) v)
                      (column_of L v (Bindings (Results r)))))"
proof (intro conjI allI impI)
  fix b :: Binding
  assume "Type b \<notin> {''uri'', ''literal'', ''typed-literal'', ''bnode''}"
  then show "termFromJSON L b = Inl (Error ''unknown term type'')"
    by (simp add: termFromJSON_def)
next
  fix i k and b :: Binding
  assume "i < length (Bindings (Results r)) \<and> (Bindings (Results r) ! i) k = Some b"
  then show "(Results_Solutions L order r ! i) k =
              (case termFromJSON L b of Inr t \<Rightarrow> Some t | Inl _ \<Rightarrow> None)"
    using assms by (simp add: Results_Solutions_eq solution_of_def term_of_def)
next
  fix v
  show "index_slices (Results_Bindings L r) v =
          concat (replicate (count_list (Vars (Head r)) v) (column_of L v (Bindings (Results r))))"
    by (simp add: index_slices_def Results_Bindings_eq Let_def)
qed

theorem unknown_kind_dropped_witness:
  "termFromJSON sample_rdf \<lparr>Type = ''foo'', Value = ''junk'', Lang = [], DataType = []\<rparr>
     = Inl (Error ''unknown term type'')
   \<and> (Results_Solutions sample_rdf sample_order sample_Results ! 0) ''y'' = None
   \<and> (Results_Solutions sample_rdf sample_order sample_Results ! 0) ''x''
       = Some (TermIRI (IRI ''http://example.org/a''))
   \<and> index_slices (Results_Bindings sample_rdf sample_Results) ''y'' = []
   \<and> index_slices (Results_Bindings sample_rdf sample_Results) ''x''
       = [TermIRI (IRI ''http://example.org/a''),
          TypedLiteral ''hello'' (IRI ''http://www.w3.org/2001/XMLSchema#string'')]"
proof -
  have v: "\<forall>s \<in> set (Bindings (Results sample_Results)). visits sample_order s"
    using sample_visits by simp
  note u = unknown_kind_dropped [OF v, of sample_rdf]
  have t1: "termFromJSON sample_rdf \<lparr>Type = ''foo'', Value = ''junk'', Lang = [], DataType = []\<rparr>
     = Inl (Error ''unknown term type'')"
    using u by simp
  have t2: "termFromJSON sample_rdf \<lparr>Type = ''uri'', Value = ''http://example.org/a'', Lang = [], DataType = []\<rparr>
     = Inr (TermIRI (IRI ''http://example.org/a''))"
    by (simp add: termFromJSON_def NewIRI_def sample_rdf_defs)
  have t3: "termFromJSON sample_rdf \<lparr>Type = ''literal'', Value = ''hello'', Lang = [], DataType = []\<rparr>
     = Inr (TypedLiteral ''hello'' (IRI ''http://www.w3.org/2001/XMLSchema#string''))"
    by (simp add: termFromJSON_def NewIRI_def sample_rdf_defs xsdString_def NewTypedLiteral_def)
  have t4: "termFromJSON sample_rdf zero_Binding = Inl (Error ''unknown term type'')"
    by (simp add: termFromJSON_def zero_Binding_def)
  have s1: "(Results_Solutions sample_rdf sample_order sample_Results ! 0) ''y'' = None"
    using u t1 by (simp add: sample_Results_def)
  have s2: "(Results_Solutions sample_rdf sample_order sample_Results ! 0) ''x''
       = Some (TermIRI (IRI ''http://example.org/a''))"
    using u t2 by (simp add: sample_Results_def)
  have b1: "index_slices (Results_Bindings sample_rdf sample_Results) ''y'' = []"
    using u t1 t4 by (simp add: sample_Results_def column_of_Cons column_of_Nil index_row_def)
  have b2: "index_slices (Results_Bindings sample_rdf sample_Results) ''x''
       = [TermIRI (IRI ''http://example.org/a''),
          TypedLiteral ''hello'' (IRI ''http://www.w3.org/2001/XMLSchema#string'')]"
    using u t2 t3 by (simp add: sample_Results_def column_of_Cons column_of_Nil index_row_def)
  from t1 s1 s2 b1 b2 show ?thesis by simp
qed

text \<open>
  C3. \<open>Solutions\<close> returns as many mappings as the result has rows, the i-th being
  the solution of the i-th row: the terms of the row's bindings that materialize, under
  their variables. Its keys are among the row's keys, fewer when a binding fails; the
  row is emitted all the same.
\<close>

theorem Solutions_one_per_row:
  assumes "\<forall>s \<in> set (Bindings (Results r)). visits order s"
  shows "length (Results_Solutions L order r) = length (Bindings (Results r))
       \<and> (\<forall>i < length (Bindings (Results r)).
            Results_Solutions L order r ! i = solution_of L (Bindings (Results r) ! i)
            \<and> dom (solution_of L (Bindings (Results r) ! i)) \<subseteq> dom (Bindings (Results r) ! i))"
  using assms by (auto simp: Results_Solutions_eq dom_solution_of)

theorem Solutions_one_per_row_witness:
  "length (Results_Solutions sample_rdf sample_order sample_Results) = 2
   \<and> Results_Solutions sample_rdf sample_order sample_Results ! 0
       = solution_of sample_rdf (Bindings (Results sample_Results) ! 0)
   \<and> solution_of sample_rdf (Bindings (Results sample_Results) ! 0) ''y'' = None
   \<and> solution_of sample_rdf (Bindings (Results sample_Results) ! 0) ''x''
       = Some (TermIRI (IRI ''http://example.org/a''))"
proof -
  have v: "\<forall>s \<in> set (Bindings (Results sample_Results)). visits sample_order s"
    using sample_visits by simp
  have n: "length (Bindings (Results sample_Results)) = 2"
    by (simp add: sample_Results_def)
  have y: "solution_of sample_rdf (Bindings (Results sample_Results) ! 0) ''y'' = None"
    by (simp add: sample_Results_def solution_of_def term_of_def termFromJSON_def)
  have x: "solution_of sample_rdf (Bindings (Results sample_Results) ! 0) ''x''
       = Some (TermIRI (IRI ''http://example.org/a''))"
    by (simp add: sample_Results_def solution_of_def term_of_def termFromJSON_def NewIRI_def
          sample_rdf_defs)
  show ?thesis
    using Solutions_one_per_row [OF v, of sample_rdf] n x y by simp
qed

text \<open>
  C4. For a result whose head declares N variable names, each once, and which has M
  rows, the mapping that \<open>Bindings\<close> returns has finitely many keys, all of them
  declared names and at most N in number, and the slice under each key has at most M
  terms.
\<close>

theorem Bindings_bounds:
  assumes "distinct (Vars (Head r))"
  shows "finite (dom (Results_Bindings L r))
       \<and> dom (Results_Bindings L r) \<subseteq> set (Vars (Head r))
       \<and> card (dom (Results_Bindings L r)) \<le> length (Vars (Head r))
       \<and> (\<forall>k ts. Results_Bindings L r k = Some ts \<longrightarrow> length ts \<le> length (Bindings (Results r)))"
proof (intro conjI allI impI)
  show "finite (dom (Results_Bindings L r))"
    by (rule finite_subset [OF dom_Results_Bindings]) simp
next
  show "dom (Results_Bindings L r) \<subseteq> set (Vars (Head r))"
    by (rule dom_Results_Bindings)
next
  have "card (dom (Results_Bindings L r)) \<le> card (set (Vars (Head r)))"
    by (rule card_mono) (simp_all add: dom_Results_Bindings)
  also have "\<dots> \<le> length (Vars (Head r))"
    by (rule card_length)
  finally show "card (dom (Results_Bindings L r)) \<le> length (Vars (Head r))" .
next
  fix k ts
  assume h: "Results_Bindings L r k = Some ts"
  then have "count_list (Vars (Head r)) k \<noteq> 0"
    by (auto simp: Results_Bindings_eq Let_def split: if_splits)
  then have "k \<in> set (Vars (Head r))"
    by (simp add: count_list_0_iff)
  with assms have "count_list (Vars (Head r)) k = 1"
    by (simp add: distinct_count_list)
  with h have "ts = column_of L k (Bindings (Results r))"
    by (auto simp: Results_Bindings_eq Let_def split: if_splits)
  then show "length ts \<le> length (Bindings (Results r))"
    by (simp add: length_column_of)
qed

theorem Bindings_bounds_witness:
  "distinct (Vars (Head sample_Results))
   \<and> finite (dom (Results_Bindings sample_rdf sample_Results))
   \<and> card (dom (Results_Bindings sample_rdf sample_Results)) \<le> 2
   \<and> Results_Bindings sample_rdf sample_Results ''x''
       = Some [TermIRI (IRI ''http://example.org/a''),
               TypedLiteral ''hello'' (IRI ''http://www.w3.org/2001/XMLSchema#string'')]
   \<and> length [TermIRI (IRI ''http://example.org/a''),
              TypedLiteral ''hello'' (IRI ''http://www.w3.org/2001/XMLSchema#string'')]
       \<le> length (Bindings (Results sample_Results))"
proof -
  have d: "distinct (Vars (Head sample_Results))"
    by (simp add: sample_Results_def)
  have n: "length (Vars (Head sample_Results)) = 2"
    by (simp add: sample_Results_def)
  have t2: "termFromJSON sample_rdf \<lparr>Type = ''uri'', Value = ''http://example.org/a'', Lang = [], DataType = []\<rparr>
     = Inr (TermIRI (IRI ''http://example.org/a''))"
    by (simp add: termFromJSON_def NewIRI_def sample_rdf_defs)
  have t3: "termFromJSON sample_rdf \<lparr>Type = ''literal'', Value = ''hello'', Lang = [], DataType = []\<rparr>
     = Inr (TypedLiteral ''hello'' (IRI ''http://www.w3.org/2001/XMLSchema#string''))"
    by (simp add: termFromJSON_def NewIRI_def sample_rdf_defs xsdString_def NewTypedLiteral_def)
  have x: "Results_Bindings sample_rdf sample_Results ''x''
       = Some [TermIRI (IRI ''http://example.org/a''),
               TypedLiteral ''hello'' (IRI ''http://www.w3.org/2001/XMLSchema#string'')]"
    using t2 t3
    by (simp add: Results_Bindings_eq sample_Results_def column_of_Cons column_of_Nil index_row_def)
  note b = Bindings_bounds [OF d, of sample_rdf]
  from b n have c: "card (dom (Results_Bindings sample_rdf sample_Results)) \<le> 2"
    by simp
  from b x have l: "length [TermIRI (IRI ''http://example.org/a''),
              TypedLiteral ''hello'' (IRI ''http://www.w3.org/2001/XMLSchema#string'')]
       \<le> length (Bindings (Results sample_Results))"
    by blast
  from b have f: "finite (dom (Results_Bindings sample_rdf sample_Results))"
    by simp
  from d f c x l show ?thesis by blast
qed

text \<open>
  C8. Two successive calls of \<open>Bindings\<close> return equal mappings, and two successive
  calls of \<open>Solutions\<close> return equal sequences even when the second call ranges over
  the rows' keys in another order than the first; after the calls the result holds the
  head and the rows it held before.
\<close>

theorem materialization_repeatable:
  assumes "\<forall>s \<in> set (Bindings (Results r)). visits order1 s \<and> visits order2 s"
  shows "fst (call_Bindings L (snd (call_Bindings L r))) = fst (call_Bindings L r)
       \<and> snd (call_Bindings L (snd (call_Bindings L r))) = r
       \<and> fst (call_Solutions L order2 (snd (call_Solutions L order1 r)))
           = fst (call_Solutions L order1 r)
       \<and> snd (call_Solutions L order2 (snd (call_Solutions L order1 r))) = r"
  using assms by (simp add: call_Bindings_def call_Solutions_def Results_Solutions_eq)

theorem materialization_repeatable_witness:
  "fst (call_Solutions sample_rdf sample_order2 (snd (call_Solutions sample_rdf sample_order sample_Results)))
     = fst (call_Solutions sample_rdf sample_order sample_Results)
   \<and> snd (call_Solutions sample_rdf sample_order2 (snd (call_Solutions sample_rdf sample_order sample_Results)))
     = sample_Results
   \<and> fst (call_Bindings sample_rdf (snd (call_Bindings sample_rdf sample_Results)))
     = fst (call_Bindings sample_rdf sample_Results)
   \<and> sample_order (Bindings (Results sample_Results) ! 0)
       \<noteq> sample_order2 (Bindings (Results sample_Results) ! 0)"
proof -
  have o: "sample_order (Bindings (Results sample_Results) ! 0)
             \<noteq> sample_order2 (Bindings (Results sample_Results) ! 0)"
    by (simp add: sample_Results_def sample_order_def sample_order2_def)
  show ?thesis
    using materialization_repeatable [OF sample_visits, of sample_rdf] o by simp
qed

section \<open>The lookup helpers\<close>

lemma ListOfSubjects_loop_eq:
  "ListOfSubjects_loop results acc = ListOf_loop results ''s'' acc"
  by (induction results arbitrary: acc) (simp_all split: option.splits)

text \<open>
  C9. \<open>ListOfSubjects\<close> returns, for every sequence of rows, the grouping that \<open>ListOf\<close>
  returns for the variable name "s".
\<close>

theorem ListOfSubjects_is_ListOf:
  "ListOfSubjects results = ListOf results ''s''"
  by (simp add: ListOfSubjects_def ListOf_def ListOfSubjects_loop_eq)

text \<open>
  C10. \<open>GetValue\<close> returns the empty string on the empty sequence and when the first
  row has no binding for the needle, and otherwise the value of the first row's binding
  for the needle; the rows after the first do not change the result.
\<close>

theorem GetValue_first_row:
  "GetValue needle [] = []
   \<and> (\<forall>term rest. term needle = None \<longrightarrow> GetValue needle (term # rest) = [])
   \<and> (\<forall>term rest val. term needle = Some val \<longrightarrow> GetValue needle (term # rest) = Value val)
   \<and> (\<forall>term rest rest'. GetValue needle (term # rest) = GetValue needle (term # rest'))"
  by (simp add: GetValue_def)

theorem GetValue_first_row_witness:
  "GetValue ''o'' [[''o'' \<mapsto> \<lparr>Type = ''literal'', Value = ''first'', Lang = [], DataType = []\<rparr>],
                   [''o'' \<mapsto> \<lparr>Type = ''literal'', Value = ''second'', Lang = [], DataType = []\<rparr>]]
     = ''first''
   \<and> GetValue ''p'' [[''o'' \<mapsto> \<lparr>Type = ''literal'', Value = ''first'', Lang = [], DataType = []\<rparr>],
                     [''p'' \<mapsto> \<lparr>Type = ''uri'', Value = ''second'', Lang = [], DataType = []\<rparr>]]
     = []"
  using GetValue_first_row [of "''o''"] GetValue_first_row [of "''p''"]
  by simp

section \<open>Options are applied in order, up to the first failure\<close>

lemma SetOption_all_succeed:
  "all_succeed options r \<Longrightarrow> SetOption r options = (apply_in_order options r, None)"
  by (induction options arbitrary: r) (auto split: prod.splits option.splits)

lemma SetOption_first_failure:
  "all_succeed pre r \<Longrightarrow> opt (apply_in_order pre r) = (r', Some e) \<Longrightarrow>
     SetOption r (pre @ opt # post) = (r', Some e)"
  by (induction pre arbitrary: r) (auto split: prod.splits option.splits)

lemma SetOption_cases:
  "all_succeed options r \<or>
   (\<exists>pre opt post r' e. options = pre @ opt # post \<and> all_succeed pre r
      \<and> opt (apply_in_order pre r) = (r', Some e))"
proof (induction options arbitrary: r)
  case Nil
  show ?case by simp
next
  case (Cons opt options)
  show ?case
  proof (cases "snd (opt r)")
    case (Some e)
    then have "opt (apply_in_order [] r) = (fst (opt r), Some e)"
      by (simp add: prod_eq_iff)
    moreover have "opt # options = [] @ opt # options" "all_succeed [] r"
      by simp_all
    ultimately show ?thesis by blast
  next
    case None
    from Cons.IH [of "fst (opt r)"] show ?thesis
    proof
      assume "all_succeed options (fst (opt r))"
      with None show ?thesis by simp
    next
      assume "\<exists>pre o' post r' e. options = pre @ o' # post \<and> all_succeed pre (fst (opt r))
        \<and> o' (apply_in_order pre (fst (opt r))) = (r', Some e)"
      then obtain pre o' post r' e where h: "options = pre @ o' # post"
        "all_succeed pre (fst (opt r))" "o' (apply_in_order pre (fst (opt r))) = (r', Some e)"
        by blast
      from h None have "opt # options = (opt # pre) @ o' # post" "all_succeed (opt # pre) r"
        "o' (apply_in_order (opt # pre) r) = (r', Some e)"
        by simp_all
      then show ?thesis by blast
    qed
  qed
qed

text \<open>
  C7. \<open>NewRepo\<close> starts from the repository with the given address and applies the
  options in the order given. When every option succeeds on the repository it receives,
  all have been applied and no error is returned. When an option fails after those
  before it succeeded, its error is returned with the repository as that option left
  it, whatever the options after it are: they are not applied. One of the two cases
  always holds.
\<close>

theorem NewRepo_fail_fast:
  "(all_succeed options \<lparr>endpoint = addr, client = dc\<rparr> \<longrightarrow>
      NewRepo dc addr options = (apply_in_order options \<lparr>endpoint = addr, client = dc\<rparr>, None))
   \<and> (\<forall>pre opt post r' e.
        options = pre @ opt # post \<and> all_succeed pre \<lparr>endpoint = addr, client = dc\<rparr>
        \<and> opt (apply_in_order pre \<lparr>endpoint = addr, client = dc\<rparr>) = (r', Some e) \<longrightarrow>
        NewRepo dc addr options = (r', Some e))
   \<and> (all_succeed options \<lparr>endpoint = addr, client = dc\<rparr>
       \<or> (\<exists>pre opt post r' e.
            options = pre @ opt # post \<and> all_succeed pre \<lparr>endpoint = addr, client = dc\<rparr>
            \<and> opt (apply_in_order pre \<lparr>endpoint = addr, client = dc\<rparr>) = (r', Some e)))"
  using SetOption_cases [of options "\<lparr>endpoint = addr, client = dc\<rparr>"]
  by (auto simp: NewRepo_def SetOption_all_succeed SetOption_first_failure)

theorem NewRepo_fail_fast_witness:
  "NewRepo \<lparr>Transport = NoTransport, Timeout = 0\<rparr> ''http://localhost:3030/ds''
     [Timeout_option 5, failing_option, DigestAuth ''u'' ''p'']
     = (\<lparr>endpoint = ''http://localhost:3030/ds'', client = \<lparr>Transport = NoTransport, Timeout = 5\<rparr>\<rparr>,
        Some (Error ''refused''))
   \<and> NewRepo \<lparr>Transport = NoTransport, Timeout = 0\<rparr> ''http://localhost:3030/ds''
     [Timeout_option 5, DigestAuth ''u'' ''p'']
     = (\<lparr>endpoint = ''http://localhost:3030/ds'',
         client = \<lparr>Transport = DigestTransport ''u'' ''p'', Timeout = 5\<rparr>\<rparr>, None)"
proof -
  let ?dc = "\<lparr>Transport = NoTransport, Timeout = 0\<rparr>"
  let ?a = "''http://localhost:3030/ds''"
  have 1: "[Timeout_option 5, failing_option, DigestAuth ''u'' ''p'']
             = [Timeout_option 5] @ failing_option # [DigestAuth ''u'' ''p'']"
    by simp
  have 2: "all_succeed [Timeout_option 5] \<lparr>endpoint = ?a, client = ?dc\<rparr>"
    by (simp add: Timeout_option_def)
  have 3: "failing_option (apply_in_order [Timeout_option 5] \<lparr>endpoint = ?a, client = ?dc\<rparr>)
             = (\<lparr>endpoint = ?a, client = \<lparr>Transport = NoTransport, Timeout = 5\<rparr>\<rparr>, Some (Error ''refused''))"
    by (simp add: Timeout_option_def failing_option_def)
  have 4: "all_succeed [Timeout_option 5, DigestAuth ''u'' ''p''] \<lparr>endpoint = ?a, client = ?dc\<rparr>"
    by (simp add: Timeout_option_def DigestAuth_def)
  have 5: "apply_in_order [Timeout_option 5, DigestAuth ''u'' ''p''] \<lparr>endpoint = ?a, client = ?dc\<rparr>
             = \<lparr>endpoint = ?a, client = \<lparr>Transport = DigestTransport ''u'' ''p'', Timeout = 5\<rparr>\<rparr>"
    by (simp add: Timeout_option_def DigestAuth_def)
  from NewRepo_fail_fast [of "[Timeout_option 5, failing_option, DigestAuth ''u'' ''p'']" ?a ?dc] 1 2 3
  have a: "NewRepo ?dc ?a [Timeout_option 5, failing_option, DigestAuth ''u'' ''p'']
     = (\<lparr>endpoint = ?a, client = \<lparr>Transport = NoTransport, Timeout = 5\<rparr>\<rparr>, Some (Error ''refused''))"
    by blast
  from NewRepo_fail_fast [of "[Timeout_option 5, DigestAuth ''u'' ''p'']" ?a ?dc] 4 5
  have b: "NewRepo ?dc ?a [Timeout_option 5, DigestAuth ''u'' ''p'']
     = (\<lparr>endpoint = ?a, client = \<lparr>Transport = DigestTransport ''u'' ''p'', Timeout = 5\<rparr>\<rparr>, None)"
    by simp
  from a b show ?thesis by blast
qed

section \<open>Errors of the three operations on a status other than 200\<close>

lemma Sprintf_text: "CHR ''%'' \<noteq> c \<Longrightarrow> Sprintf other (c # f) a = c # Sprintf other f a"
  by (cases f) auto

lemma Sprintf_s: "Sprintf other (CHR ''%'' # CHR ''s'' # f) (x # a) = x @ Sprintf other f a"
  by simp

lemma Sprintf_no_verb: "CHR ''%'' \<notin> set f \<Longrightarrow> Sprintf other f [] = f"
  by (induction f) (simp_all add: Sprintf_text)

lemma Sprintf_Query:
  "CHR ''%'' \<notin> set msg \<Longrightarrow>
     Sprintf other (''Query: SPARQL request failed: %s. '' @ msg) [status]
       = ''Query: SPARQL request failed: '' @ status @ ''. '' @ msg"
  by (simp add: Sprintf_text Sprintf_s Sprintf_no_verb del: Sprintf.simps)

lemma Sprintf_Construct:
  "CHR ''%'' \<notin> set msg \<Longrightarrow>
     Sprintf other (''Construct: SPARQL request failed: %s. '' @ msg) [status]
       = ''Construct: SPARQL request failed: '' @ status @ ''. '' @ msg"
  by (simp add: Sprintf_text Sprintf_s Sprintf_no_verb del: Sprintf.simps)

lemma no_verb_rb: "CHR ''%'' \<notin> set rb"
  by (simp add: rb_def)

lemma no_verb_readFailMsg: "CHR ''%'' \<notin> set readFailMsg"
  by (simp add: readFailMsg_def)

text \<open>
  C6, amended. On a status other than 200, \<open>Query\<close>, \<open>Update\<close> and \<open>Construct\<close>
  fail with a message made of a fixed prefix, the HTTP status line and ". ", followed
  by: the fixed text "Failed to read response body" when the body could not be read;
  nothing when the body was read and is blank; "Response body: ", a line feed and the
  body's raw text when the body was read, is not blank and holds no "%".
\<close>

theorem non200_error_message:
  assumes "StatusCode resp \<noteq> 200"
  shows "(\<forall>e. Body resp = ReadAll_error e \<longrightarrow>
            Query_response G resp =
              Inl (Error (''Query: SPARQL request failed: '' @ Status resp @ ''. '' @ readFailMsg))
          \<and> Update_response G resp =
              Inl (Error (''Query: SPARQL request failed: '' @ Status resp @ ''. '' @ readFailMsg))
          \<and> Construct_response G resp =
              ([], Some (Error (''Construct: SPARQL request failed: '' @ Status resp @ ''. ''
                                  @ readFailMsg))))
       \<and> (\<forall>b. Body resp = ReadAll_ok b \<and> TrimSpace G b = [] \<longrightarrow>
            Query_response G resp =
              Inl (Error (''Query: SPARQL request failed: '' @ Status resp @ ''. ''))
          \<and> Update_response G resp =
              Inl (Error (''Query: SPARQL request failed: '' @ Status resp @ ''. ''))
          \<and> Construct_response G resp =
              ([], Some (Error (''Construct: SPARQL request failed: '' @ Status resp @ ''. ''))))
       \<and> (\<forall>b. Body resp = ReadAll_ok b \<and> TrimSpace G b \<noteq> [] \<and> CHR ''%'' \<notin> set b \<longrightarrow>
            Query_response G resp =
              Inl (Error (''Query: SPARQL request failed: '' @ Status resp @ ''. '' @ rb @ b))
          \<and> Update_response G resp =
              Inl (Error (''Query: SPARQL request failed: '' @ Status resp @ ''. '' @ rb @ b))
          \<and> Construct_response G resp =
              ([], Some (Error (''Construct: SPARQL request failed: '' @ Status resp @ ''. ''
                                  @ rb @ b))))"
proof (intro conjI allI impI)
  fix e assume b: "Body resp = ReadAll_error e"
  note q = Sprintf_Query [OF no_verb_readFailMsg, of "other_verbs G" "Status resp"]
  note c = Sprintf_Construct [OF no_verb_readFailMsg, of "other_verbs G" "Status resp"]
  show "Query_response G resp =
          Inl (Error (''Query: SPARQL request failed: '' @ Status resp @ ''. '' @ readFailMsg))"
    using assms b q by (simp add: Query_response_def Errorf_def)
  show "Update_response G resp =
          Inl (Error (''Query: SPARQL request failed: '' @ Status resp @ ''. '' @ readFailMsg))"
    using assms b q by (simp add: Update_response_def Errorf_def)
  show "Construct_response G resp =
          ([], Some (Error (''Construct: SPARQL request failed: '' @ Status resp @ ''. ''
                              @ readFailMsg)))"
    using assms b c by (simp add: Construct_response_def Errorf_def)
next
  fix b assume b: "Body resp = ReadAll_ok b \<and> TrimSpace G b = []"
  show "Query_response G resp =
          Inl (Error (''Query: SPARQL request failed: '' @ Status resp @ ''. ''))"
    using assms b Sprintf_Query [of "[]" "other_verbs G" "Status resp"]
    by (simp add: Query_response_def Errorf_def)
  show "Update_response G resp =
          Inl (Error (''Query: SPARQL request failed: '' @ Status resp @ ''. ''))"
    using assms b Sprintf_Query [of "[]" "other_verbs G" "Status resp"]
    by (simp add: Update_response_def Errorf_def)
  show "Construct_response G resp =
          ([], Some (Error (''Construct: SPARQL request failed: '' @ Status resp @ ''. '')))"
    using assms b Sprintf_Construct [of "[]" "other_verbs G" "Status resp"]
    by (simp add: Construct_response_def Errorf_def)
next
  fix b assume b: "Body resp = ReadAll_ok b \<and> TrimSpace G b \<noteq> [] \<and> CHR ''%'' \<notin> set b"
  then have m: "CHR ''%'' \<notin> set (rb @ b)"
    by (simp add: no_verb_rb)
  show "Query_response G resp =
          Inl (Error (''Query: SPARQL request failed: '' @ Status resp @ ''. '' @ rb @ b))"
    using assms b Sprintf_Query [OF m, of "other_verbs G" "Status resp"]
    by (simp add: Query_response_def Errorf_def)
  show "Update_response G resp =
          Inl (Error (''Query: SPARQL request failed: '' @ Status resp @ ''. '' @ rb @ b))"
    using assms b Sprintf_Query [OF m, of "other_verbs G" "Status resp"]
    by (simp add: Update_response_def Errorf_def)
  show "Construct_response G resp =
          ([], Some (Error (''Construct: SPARQL request failed: '' @ Status resp @ ''. ''
                              @ rb @ b)))"
    using assms b Sprintf_Construct [OF m, of "other_verbs G" "Status resp"]
    by (simp add: Construct_response_def Errorf_def)
qed

text \<open>
  C6 as stated fails: on a status other than 200 with a body that is read and is empty,
  the message of \<open>Query\<close> ends after the status line and holds no indicator of an
  unreadable body.
\<close>

theorem empty_body_no_indicator:
  "Query_response sample_golib
     \<lparr>StatusCode = 500, Status = ''500 Internal Server Error'', Body = ReadAll_ok []\<rparr>
     = Inl (Error ''Query: SPARQL request failed: 500 Internal Server Error. '')
   \<and> \<not> Contains ''Query: SPARQL request failed: 500 Internal Server Error. '' readFailMsg"
  by (simp add: Query_response_def sample_golib_def Errorf_def readFailMsg_def)

text \<open>
  The body is appended to the format string, not passed as an operand: a "%" in it is
  read as a verb by \<open>fmt\<close>.
\<close>

lemma percent_in_body_is_formatted:
  assumes "StatusCode resp \<noteq> 200" and "Body resp = ReadAll_ok ''100%''"
    and "TrimSpace G ''100%'' \<noteq> []"
  shows "Query_response G resp =
           Inl (Error (''Query: SPARQL request failed: '' @ Status resp @ ''. '' @ rb @ ''100''
                         @ other_verbs G ''%'' []))"
  using assms
  by (simp add: Query_response_def Errorf_def rb_def Sprintf_text Sprintf_s del: Sprintf.simps)
     simp

theorem non200_error_message_witness:
  "Query_response sample_golib
     \<lparr>StatusCode = 500, Status = ''500 Internal Server Error'', Body = ReadAll_ok ''Internal error''\<rparr>
     = Inl (Error (''Query: SPARQL request failed: 500 Internal Server Error. ''
                     @ rb @ ''Internal error''))
   \<and> Update_response sample_golib
     \<lparr>StatusCode = 404, Status = ''404 Not Found'', Body = ReadAll_error (Error ''unexpected EOF'')\<rparr>
     = Inl (Error (''Query: SPARQL request failed: 404 Not Found. '' @ readFailMsg))
   \<and> Construct_response sample_golib
     \<lparr>StatusCode = 503, Status = ''503 Service Unavailable'', Body = ReadAll_ok '' ''\<rparr>
     = ([], Some (Error ''Construct: SPARQL request failed: 503 Service Unavailable. ''))"
proof -
  let ?r1 = "\<lparr>StatusCode = 500, Status = ''500 Internal Server Error'',
               Body = ReadAll_ok ''Internal error''\<rparr>"
  let ?r2 = "\<lparr>StatusCode = 404, Status = ''404 Not Found'',
               Body = ReadAll_error (Error ''unexpected EOF'')\<rparr>"
  let ?r3 = "\<lparr>StatusCode = 503, Status = ''503 Service Unavailable'', Body = ReadAll_ok '' ''\<rparr>"
  have s: "StatusCode ?r1 \<noteq> 200" "StatusCode ?r2 \<noteq> 200" "StatusCode ?r3 \<noteq> 200"
    by simp_all
  have t1: "TrimSpace sample_golib ''Internal error'' \<noteq> []"
    by (simp add: sample_golib_def ascii_space_def)
  have t3: "TrimSpace sample_golib '' '' = []"
    by (simp add: sample_golib_def ascii_space_def)
  have p: "CHR ''%'' \<notin> set ''Internal error''"
    by simp
  from non200_error_message [OF s(1), of sample_golib] t1 p
  have a: "Query_response sample_golib ?r1
     = Inl (Error (''Query: SPARQL request failed: 500 Internal Server Error. ''
                     @ rb @ ''Internal error''))"
    by simp
  from non200_error_message [OF s(2), of sample_golib]
  have b: "Update_response sample_golib ?r2
     = Inl (Error (''Query: SPARQL request failed: 404 Not Found. '' @ readFailMsg))"
    by simp
  from non200_error_message [OF s(3), of sample_golib] t3
  have c: "Construct_response sample_golib ?r3
     = ([], Some (Error ''Construct: SPARQL request failed: 503 Service Unavailable. ''))"
    by simp
  from a b c show ?thesis by blast
qed

end
